theory Spec2Isabelle
  imports Main "HOL-Library.Sublist"
begin

section \<open>Python values used by the scraper\<close>

text \<open>
  The embedding follows \<^verbatim>\<open>intelligent_scraper.py\<close>. A Python \<^verbatim>\<open>str\<close> is a
  \<^typ>\<open>string\<close>; a character stands for the code point of the same number, so the model
  covers text in the range 0..255 (Latin-1).
\<close>

subsection \<open>\<^verbatim>\<open>sub in s\<close> and \<^verbatim>\<open>s.lower()\<close> on strings\<close>

text \<open>\<^verbatim>\<open>sub in s\<close>: \<^verbatim>\<open>sub\<close> occurs in \<^verbatim>\<open>s\<close> as a contiguous run.\<close>

fun str_contains :: "string \<Rightarrow> string \<Rightarrow> bool" where
  "str_contains sub [] = (sub = [])"
| "str_contains sub (c # cs) = (prefix sub (c # cs) \<or> str_contains sub cs)"

text \<open>
  \<^verbatim>\<open>str.lower()\<close> on the code points 0..255: the letters A..Z and the accented capitals
  192..222 (without the multiplication sign 215) move up by 32, everything else stays.
\<close>

definition lower_char :: "char \<Rightarrow> char" where
  "lower_char c =
     (let n = (of_char c :: nat)
      in if (65 \<le> n \<and> n \<le> 90) \<or> (192 \<le> n \<and> n \<le> 222 \<and> n \<noteq> 215)
         then char_of (n + 32) else c)"

definition lower :: "string \<Rightarrow> string" where
  "lower s = map lower_char s"

subsection \<open>Decoded JSON\<close>

text \<open>
  What \<^verbatim>\<open>json.loads\<close> can return. \<open>JNull\<close> is Python's \<^verbatim>\<open>None\<close>; \<open>JNum\<close> stands
  for a number, of which the code only observes whether it is zero; \<open>JObj\<close> is a dict,
  read with \<^const>\<open>map_of\<close>.
\<close>

datatype json =
    JNull
  | JBool bool
  | JNum int
  | JStr string
  | JArr "json list"
  | JObj "(string \<times> json) list"

text \<open>Exceptions that leave \<^verbatim>\<open>search\<close>, which has no handler of its own.\<close>

datatype pyexc = AttributeError | TypeError

text \<open>Truth value of an object, as \<^verbatim>\<open>not x\<close>, \<^verbatim>\<open>if x\<close> and \<^verbatim>\<open>x or y\<close> take it.\<close>

fun truthy :: "json \<Rightarrow> bool" where
  "truthy JNull = False"
| "truthy (JBool b) = b"
| "truthy (JNum n) = (n \<noteq> 0)"
| "truthy (JStr s) = (s \<noteq> [])"
| "truthy (JArr xs) = (xs \<noteq> [])"
| "truthy (JObj kvs) = (kvs \<noteq> [])"

text \<open>\<^verbatim>\<open>x or y\<close>: the first operand when it is true, else the second.\<close>

definition py_or :: "json \<Rightarrow> json \<Rightarrow> json" where
  "py_or x y = (if truthy x then x else y)"

text \<open>
  \<^verbatim>\<open>key in x\<close> for a string key: a key of a dict, an element of a list, a substring of
  a string; any other object is not iterable.
\<close>

fun py_in :: "string \<Rightarrow> json \<Rightarrow> pyexc + bool" where
  "py_in k (JObj kvs) = Inr (k \<in> fst ` set kvs)"
| "py_in k (JArr xs) = Inr (JStr k \<in> set xs)"
| "py_in k (JStr s) = Inr (str_contains k s)"
| "py_in k _ = Inl TypeError"

text \<open>\<^verbatim>\<open>x.get(key)\<close>: only a dict has the method; a missing key gives \<^verbatim>\<open>None\<close>.\<close>

definition dict_get :: "(string \<times> json) list \<Rightarrow> string \<Rightarrow> json" where
  "dict_get kvs k = (case map_of kvs k of None \<Rightarrow> JNull | Some x \<Rightarrow> x)"

fun py_get :: "json \<Rightarrow> string \<Rightarrow> pyexc + json" where
  "py_get (JObj kvs) k = Inr (dict_get kvs k)"
| "py_get _ k = Inl AttributeError"

section \<open>The location registry\<close>

record location_entry =
  api_code :: string
  provinces :: "(string \<times> string) list"

definition LOCATION_DATA :: "(string \<times> location_entry) list" where
  "LOCATION_DATA =
    [(''united states'',
       \<lparr>api_code = ''United States'',
        provinces =
         [(''alabama'', ''AL''), (''arizona'', ''AZ''), (''arkansas'', ''AR''), (''california'', ''CA''),
          (''colorado'', ''CO''), (''delaware'', ''DE''), (''florida'', ''FL''), (''georgia'', ''GA''),
          (''idaho'', ''ID''), (''illinois'', ''IL''), (''indiana'', ''IN''), (''iowa'', ''IA''),
          (''kansas'', ''KS''), (''kentucky'', ''KY''), (''louisiana'', ''LA''), (''maine'', ''ME''),
          (''maryland'', ''MD''), (''michigan'', ''MI''), (''minnesota'', ''MN''), (''mississippi'', ''MS''),
          (''missouri'', ''MO''), (''montana'', ''MT''), (''nebraska'', ''NE''), (''nevada'', ''NV''),
          (''new hampshire'', ''NH''), (''new jersey'', ''NJ''), (''new mexico'', ''NM''), (''new york'', ''NY''),
          (''north carolina'', ''NC''), (''north dakota'', ''ND''), (''ohio'', ''OH''), (''oklahoma'', ''OK''),
          (''oregon'', ''OR''), (''pennsylvania'', ''PA''), (''south carolina'', ''SC''), (''south dakota'', ''SD''),
          (''tennessee'', ''TN''), (''texas'', ''TX''), (''utah'', ''UT''), (''virginia'', ''VA''),
          (''washington'', ''WA''), (''wisconsin'', ''WI''), (''wyoming'', ''WY'')]\<rparr>),
     (''canada'',
       \<lparr>api_code = ''Canada'',
        provinces =
         [(''alberta'', ''AB''), (''ontario'', ''ON''), (''quebec'', ''QC''), (''saskatchewan'', ''SK'')]\<rparr>),
     (''argentina'',
       \<lparr>api_code = ''Argentina'',
        provinces = []\<rparr>)]"

section \<open>The collaborators of the scraper\<close>

text \<open>
  \<^verbatim>\<open>AIProcessor.interpret_command\<close>, lines 90 to 92: the call of the language model, the
  removal of the code fences and \<^verbatim>\<open>json.loads\<close> either give a decoded value or raise.
\<close>

datatype ai_outcome = Decoded json | AiRaised string

text \<open>The parameters of the request; \<^verbatim>\<open>v\<close> holds whatever object the name was.\<close>

record params =
  param_l :: string
  param_v :: json

record response =
  status_code :: nat
  reason :: string
  url :: string
  resp_text :: string

text \<open>
  \<^verbatim>\<open>requests.get\<close> returns a response or raises; the handlers of \<^verbatim>\<open>_call_api\<close> tell a
  \<^verbatim>\<open>RequestException\<close> from any other exception. The string is \<^verbatim>\<open>str(e)\<close>.
\<close>

datatype exc_class = RequestException | OtherException

datatype http_outcome = Got response | GetRaised exc_class string

datatype flavor = html5lib | bs4 | lxml

text \<open>
  A \<^verbatim>\<open>DataFrame\<close>: its column labels and its rows of cells, objects of type \<^typ>\<open>'a\<close>.
  A frame of shape (N, M) has M labels and N rows of M cells.
\<close>

record 'a dataframe =
  df_columns :: "'a list"
  df_values :: "'a list list"

definition shape :: "'a dataframe \<Rightarrow> nat \<Rightarrow> nat \<Rightarrow> bool" where
  "shape df N M \<longleftrightarrow>
     length (df_columns df) = M \<and> length (df_values df) = N \<and>
     list_all (\<lambda>row. length row = M) (df_values df)"

text \<open>
  The world a scraper object runs in: the model of the \<^verbatim>\<open>AIProcessor\<close> (absent without
  an API key), the endpoint behind \<^verbatim>\<open>requests.get\<close>, \<^verbatim>\<open>pd.read_html\<close> (with a flavor or
  without; it returns a list of frames or raises, the string being \<^verbatim>\<open>str(e)\<close>), and
  \<^verbatim>\<open>str\<close> on the objects of a frame.
\<close>

record 'a env =
  ai_model :: "(string \<Rightarrow> ai_outcome) option"
  requests_get :: "params \<Rightarrow> http_outcome"
  read_html :: "flavor option \<Rightarrow> string \<Rightarrow> string + 'a dataframe list"
  py_str :: "'a \<Rightarrow> string"

text \<open>What the scraper does to the outside, in order.\<close>

datatype event = HttpGet params | ReadHtml "flavor option"

text \<open>
  The dict a call returns: \<^verbatim>\<open>{"header": h, "data": d}\<close>, or \<^verbatim>\<open>{"error": m}\<close> with an
  optional \<^verbatim>\<open>"details"\<close> entry.
\<close>

datatype result =
    Table (header: "string list") (data: "string list list")
  | Error (message: string) (details: "json option")

section \<open>\<^verbatim>\<open>AIProcessor.interpret_command\<close>\<close>

definition interpret_command :: "(string \<Rightarrow> ai_outcome) option \<Rightarrow> string \<Rightarrow> json" where
  "interpret_command model user_command =
     (case model of
        None \<Rightarrow> JObj [(''error'', JStr ''AI model not available.'')]
      | Some generate \<Rightarrow>
          (case generate user_command of
             Decoded j \<Rightarrow> j
           | AiRaised e \<Rightarrow> JObj [(''error'', JStr (''Failed to parse AI response: '' @ e))]))"

section \<open>\<^verbatim>\<open>ShorthornApiScraper._call_api\<close>\<close>

fun digit_char :: "nat \<Rightarrow> char" where
  "digit_char n = char_of (48 + n)"

fun show_nat :: "nat \<Rightarrow> string" where
  "show_nat n = (if n < 10 then [digit_char n] else show_nat (n div 10) @ [digit_char (n mod 10)])"

declare show_nat.simps [simp del]

text \<open>
  \<^verbatim>\<open>response.raise_for_status()\<close> raises an \<^verbatim>\<open>HTTPError\<close>, a \<^verbatim>\<open>RequestException\<close>, for
  the statuses 400 to 599 and for no other; the result is the message of the exception.
\<close>

definition raise_for_status :: "response \<Rightarrow> string option" where
  "raise_for_status r =
     (if 400 \<le> status_code r \<and> status_code r < 500
      then Some (show_nat (status_code r) @ '' Client Error: '' @ reason r @ '' for url: '' @ url r)
      else if 500 \<le> status_code r \<and> status_code r < 600
      then Some (show_nat (status_code r) @ '' Server Error: '' @ reason r @ '' for url: '' @ url r)
      else None)"

definition no_results_indicators :: "string list" where
  "no_results_indicators =
     [''No records found matching your criteria'',
      ''No records found'',
      ''No results found'',
      ''0 records found'']"

definition empty_patterns :: "string list" where
  "empty_patterns = [''no data'', ''empty'', ''no results'', ''not found'']"

definition parsers :: "flavor list" where
  "parsers = [html5lib, bs4, lxml]"

text \<open>
  The loop over the parsers, lines 162 to 168: the first call that returns ends the loop;
  a call that raises leaves its exception in \<^verbatim>\<open>parse_error\<close>. The result is the calls
  made, \<^verbatim>\<open>df_list\<close> and \<^verbatim>\<open>parse_error\<close>.
\<close>

fun try_parsers ::
  "'a env \<Rightarrow> string \<Rightarrow> flavor list \<Rightarrow> string option
     \<Rightarrow> event list \<times> 'a dataframe list option \<times> string option" where
  "try_parsers env html_content [] parse_error = ([], None, parse_error)"
| "try_parsers env html_content (parser # rest) parse_error =
     (case read_html env (Some parser) html_content of
        Inr dfs \<Rightarrow> ([ReadHtml (Some parser)], Some dfs, parse_error)
      | Inl e \<Rightarrow>
          (case try_parsers env html_content rest (Some e) of
             (evs, r) \<Rightarrow> (ReadHtml (Some parser) # evs, r)))"

text \<open>Lines 157 to 175: the loop, then the call without a flavor if \<^verbatim>\<open>df_list is None\<close>.\<close>

definition extract_tables ::
  "'a env \<Rightarrow> string \<Rightarrow> event list \<times> 'a dataframe list option \<times> string option" where
  "extract_tables env html_content =
     (case try_parsers env html_content parsers None of
        (evs, df_list, parse_error) \<Rightarrow>
          (case df_list of
             Some dfs \<Rightarrow> (evs, Some dfs, parse_error)
           | None \<Rightarrow>
               (case read_html env None html_content of
                  Inr dfs \<Rightarrow> (evs @ [ReadHtml None], Some dfs, parse_error)
                | Inl e \<Rightarrow> (evs @ [ReadHtml None], None, Some e))))"

text \<open>\<^verbatim>\<open>str(parse_error)\<close>, where \<^verbatim>\<open>parse_error\<close> may still be \<^verbatim>\<open>None\<close>.\<close>

definition str_parse_error :: "string option \<Rightarrow> string" where
  "str_parse_error parse_error = (case parse_error of None \<Rightarrow> ''None'' | Some e \<Rightarrow> e)"

text \<open>Lines 177 to 200: no table at all, or the first frame as header and data.\<close>

definition shape_result ::
  "'a env \<Rightarrow> string \<Rightarrow> 'a dataframe list option \<Rightarrow> string option \<Rightarrow> result" where
  "shape_result env html_content df_list parse_error =
     (case (case df_list of None \<Rightarrow> [] | Some dfs \<Rightarrow> dfs) of
        [] \<Rightarrow>
          (if list_ex (\<lambda>pattern. str_contains pattern (lower html_content)) empty_patterns
           then Table [] []
           else Error (''Gagal mem-parsing tabel dari respons API: '' @ str_parse_error parse_error) None)
      | results_df # _ \<Rightarrow>
          Table (map (py_str env) (df_columns results_df))
                (map (map (py_str env)) (df_values results_df)))"

definition call_api :: "'a env \<Rightarrow> params \<Rightarrow> event list \<times> result" where
  "call_api env ps =
     (case requests_get env ps of
        GetRaised RequestException e \<Rightarrow> ([HttpGet ps], Error (''Gagal menghubungi API: '' @ e) None)
      | GetRaised OtherException e \<Rightarrow> ([HttpGet ps], Error (''Error tidak terduga: '' @ e) None)
      | Got resp \<Rightarrow>
          (case raise_for_status resp of
             Some e \<Rightarrow> ([HttpGet ps], Error (''Gagal menghubungi API: '' @ e) None)
           | None \<Rightarrow>
               (let html_content = resp_text resp
                in if list_ex (\<lambda>indicator. str_contains indicator html_content) no_results_indicators
                   then ([HttpGet ps], Table [] [])
                   else (case extract_tables env html_content of
                           (evs, df_list, parse_error) \<Rightarrow>
                             (HttpGet ps # evs, shape_result env html_content df_list parse_error)))))"

section \<open>\<^verbatim>\<open>ShorthornApiScraper.search\<close>\<close>

text \<open>
  A step of \<^verbatim>\<open>search\<close> raises, returns a dict to the caller, or goes on with a value.
\<close>

datatype 'a flow = Raises pyexc | Returns result | Proceeds 'a

text \<open>
  Line 108: \<^verbatim>\<open>not parsed_query or "error" in parsed_query\<close>; the right side is evaluated
  only for a true \<^verbatim>\<open>parsed_query\<close>.
\<close>

definition interpretation_failed :: "json \<Rightarrow> pyexc + bool" where
  "interpretation_failed parsed_query =
     (if \<not> truthy parsed_query then Inr True else py_in ''error'' parsed_query)"

text \<open>
  Lines 114 to 131. The three reads are \<^verbatim>\<open>parsed_query.get\<close>;
  \<^verbatim>\<open>country.lower()\<close> and \<^verbatim>\<open>province.lower()\<close> exist on strings only. An entry of the
  registry is a dict of two keys and so always true; a province code counts as missing
  when it is \<^verbatim>\<open>None\<close> or empty.
\<close>

definition unknown_province_message :: "string \<Rightarrow> string \<Rightarrow> string" where
  "unknown_province_message province country =
     ''Provinsi/Negara Bagian tidak dikenal '' @ [CHR 39] @ province @ [CHR 39] @ '' untuk '' @ country"

definition build_params :: "json \<Rightarrow> params flow" where
  "build_params parsed_query =
     (case py_get parsed_query ''name'' of
        Inl x \<Rightarrow> Raises x
      | Inr name \<Rightarrow>
     (case py_get parsed_query ''country'' of
        Inl x \<Rightarrow> Raises x
      | Inr country \<Rightarrow>
     (case py_get parsed_query ''province'' of
        Inl x \<Rightarrow> Raises x
      | Inr province \<Rightarrow>
     (let ps = \<lparr>param_l = '''', param_v = py_or name (JStr '''')\<rparr>
      in if truthy country then
           (case country of
              JStr c \<Rightarrow>
                (case map_of LOCATION_DATA (lower c) of
                   None \<Rightarrow> Returns (Error (''Negara tidak dikenal: '' @ c) None)
                 | Some country_data \<Rightarrow>
                     if truthy province then
                       (case province of
                          JStr p \<Rightarrow>
                            (case map_of (provinces country_data) (lower p) of
                               None \<Rightarrow> Returns (Error (unknown_province_message p c) None)
                             | Some province_code \<Rightarrow>
                                 if province_code = [] then
                                   Returns (Error (unknown_province_message p c) None)
                                 else
                                   Proceeds
                                     (ps\<lparr>param_l := api_code country_data @ ''|'' @ province_code\<rparr>))
                        | _ \<Rightarrow> Raises AttributeError)
                     else Proceeds (ps\<lparr>param_l := api_code country_data @ ''|''\<rparr>))
            | _ \<Rightarrow> Raises AttributeError)
         else Proceeds ps))))"

text \<open>What the caller of \<^verbatim>\<open>search\<close> gets: a dict, or an exception that nothing caught.\<close>

datatype outcome = Returned result | Raised pyexc

text \<open>
  Line 133, \<^verbatim>\<open>return self._call_api(params)\<close>: the dict of \<^verbatim>\<open>_call_api\<close>, which catches
  every exception of its own, goes to the caller.
\<close>

definition return_call_api :: "'a env \<Rightarrow> params \<Rightarrow> event list \<times> outcome" where
  "return_call_api env ps = (case call_api env ps of (evs, r) \<Rightarrow> (evs, Returned r))"

definition search :: "'a env \<Rightarrow> string \<Rightarrow> event list \<times> outcome" where
  "search env command =
     (let parsed_query = interpret_command (ai_model env) command
      in case interpretation_failed parsed_query of
           Inl x \<Rightarrow> ([], Raised x)
         | Inr True \<Rightarrow>
             (case py_get parsed_query ''error'' of
                Inl x \<Rightarrow> ([], Raised x)
              | Inr d \<Rightarrow> ([], Returned (Error ''Gagal menafsirkan perintah.'' (Some d))))
         | Inr False \<Rightarrow>
             (case build_params parsed_query of
                Raises x \<Rightarrow> ([], Raised x)
              | Returns r \<Rightarrow> ([], Returned r)
              | Proceeds ps \<Rightarrow> return_call_api env ps))"

section \<open>Reading the claims\<close>

text \<open>
  The extraction strategies in the order of the code: the three flavors, then the call
  without a flavor.
\<close>

definition strategies :: "flavor option list" where
  "strategies = map Some parsers @ [None]"

text \<open>
  Trying a list in order and stopping at the first element that satisfies \<open>stop\<close>: the
  elements tried.
\<close>

fun attempts_until :: "('s \<Rightarrow> bool) \<Rightarrow> 's list \<Rightarrow> 's list" where
  "attempts_until stop [] = []"
| "attempts_until stop (s # ss) = (if stop s then [s] else s # attempts_until stop ss)"

text \<open>A strategy returns (it does not raise); a strategy yields at least one table.\<close>

definition returns :: "'a env \<Rightarrow> string \<Rightarrow> flavor option \<Rightarrow> bool" where
  "returns env html_content f =
     (case read_html env f html_content of Inl _ \<Rightarrow> False | Inr _ \<Rightarrow> True)"

definition yields_table :: "'a env \<Rightarrow> string \<Rightarrow> flavor option \<Rightarrow> bool" where
  "yields_table env html_content f =
     (case read_html env f html_content of Inl _ \<Rightarrow> False | Inr dfs \<Rightarrow> dfs \<noteq> [])"

text \<open>
  The name filter as the claims word it: the name unchanged, \<^verbatim>\<open>None\<close> replaced by the
  empty string. A name of the interpreted query is a string or \<^verbatim>\<open>None\<close>.
\<close>

definition null_to_empty :: "json \<Rightarrow> json" where
  "null_to_empty name = (if name = JNull then JStr '''' else name)"

fun text_or_null :: "json \<Rightarrow> bool" where
  "text_or_null JNull = True"
| "text_or_null (JStr s) = True"
| "text_or_null _ = False"

text \<open>The frames a strategy hands back, none when it raises.\<close>

definition frames_of :: "'a env \<Rightarrow> string \<Rightarrow> flavor option \<Rightarrow> 'a dataframe list" where
  "frames_of env html_content f =
     (case read_html env f html_content of Inl _ \<Rightarrow> [] | Inr dfs \<Rightarrow> dfs)"

section \<open>Sample inputs\<close>

definition query :: "json \<Rightarrow> json \<Rightarrow> json \<Rightarrow> (string \<times> json) list" where
  "query c p n = [(''country'', c), (''province'', p), (''name'', n)]"

definition sample_frame :: "string dataframe" where
  "sample_frame =
     \<lparr>df_columns = [''Name'', ''State''],
      df_values = [[''Circle M'', ''TX''], [''Sullivan Farms'', ''KS''], [''Creek Ranch'', ''IA'']]\<rparr>"

definition other_frame :: "string dataframe" where
  "other_frame = \<lparr>df_columns = [''Page''], df_values = [[''1'']]\<rparr>"

definition sample_response :: "nat \<Rightarrow> string \<Rightarrow> response" where
  "sample_response st body =
     \<lparr>status_code = st, reason = ''-'', url = ''http://example.test/'', resp_text = body\<rparr>"

definition sample_env ::
  "ai_outcome \<Rightarrow> http_outcome \<Rightarrow> (flavor option \<Rightarrow> string + string dataframe list) \<Rightarrow> string env" where
  "sample_env reply answer tables =
     \<lparr>ai_model = Some (\<lambda>command. reply),
      requests_get = (\<lambda>ps. answer),
      read_html = (\<lambda>f html_content. tables f),
      py_str = (\<lambda>x. x)\<rparr>"

text \<open>Three behaviours of \<^verbatim>\<open>pd.read_html\<close> on a sample body.\<close>

definition no_tables_found :: "flavor option \<Rightarrow> string + string dataframe list" where
  "no_tables_found f = Inl ''No tables found''"

definition tables_found ::
  "string dataframe list \<Rightarrow> flavor option \<Rightarrow> string + string dataframe list" where
  "tables_found dfs f = Inr dfs"

definition lxml_finds ::
  "string dataframe list \<Rightarrow> flavor option \<Rightarrow> string + string dataframe list" where
  "lxml_finds dfs f = (if f = Some lxml then Inr dfs else Inr [])"

text \<open>
  A response whose first flavor hands back an empty list although \<^verbatim>\<open>lxml\<close> would find a
  table; a response with status 300 and a table in its body; the parameters of a request.
\<close>

definition empty_first_env :: "string env" where
  "empty_first_env =
     sample_env (Decoded JNull) (Got (sample_response 200 ''<table><tr><td> </td></tr></table>''))
       (lxml_finds [sample_frame])"

definition status_300_env :: "string env" where
  "status_300_env =
     sample_env (Decoded JNull)
       (Got (sample_response 300 ''<table><tr><th>Name</th><th>State</th></tr></table>''))
       (tables_found [sample_frame])"

definition sample_params :: params where
  "sample_params = \<lparr>param_l = ''United States|TX'', param_v = JStr ''Circle M''\<rparr>"

text \<open>
  Two replies of the interpreter with an empty string in them: the country empty, and a
  registered country with the province empty. The endpoint answers that it has no records.
\<close>

definition empty_country_env :: "string env" where
  "empty_country_env =
     sample_env (Decoded (JObj (query (JStr '''') JNull JNull)))
       (Got (sample_response 200 ''<p>No records found</p>'')) no_tables_found"

definition empty_province_env :: "string env" where
  "empty_province_env =
     sample_env (Decoded (JObj (query (JStr ''canada'') (JStr '''') JNull)))
       (Got (sample_response 200 ''<p>No records found</p>'')) no_tables_found"

section \<open>Substrings\<close>

lemma str_contains_sublist: "str_contains sub s \<longleftrightarrow> sublist sub s"
  by (induction s) (simp_all add: sublist_Cons_right)

lemma str_contains_append: "str_contains sub (pre @ sub @ post)"
  by (simp add: str_contains_sublist)

lemma list_ex_indicator:
  "indicator \<in> set xs \<Longrightarrow> str_contains indicator s \<Longrightarrow> list_ex (\<lambda>i. str_contains i s) xs"
  by (auto simp: list_ex_iff)

section \<open>The calls of \<^verbatim>\<open>pd.read_html\<close>\<close>

lemma attempts_until_append:
  "attempts_until stop (xs @ [y]) =
     (if list_ex stop xs then attempts_until stop xs else xs @ [y])"
  by (induction xs) simp_all

lemma attempts_until_all:
  "\<not> list_ex stop xs \<Longrightarrow> attempts_until stop xs = xs"
  by (induction xs) simp_all

lemma find_None_list_ex: "find P xs = None \<longleftrightarrow> \<not> list_ex P xs"
  by (auto simp: find_None_iff list_ex_iff)

lemma find_append_single:
  "find P (xs @ [y]) =
     (case find P xs of Some x \<Rightarrow> Some x | None \<Rightarrow> if P y then Some y else None)"
  by (induction xs) simp_all

text \<open>The loop calls the flavors in order up to the first call that returns.\<close>

lemma try_parsers_events:
  "fst (try_parsers env html ps pe) =
     map ReadHtml (attempts_until (returns env html) (map Some ps))"
  by (induction ps arbitrary: pe) (simp_all add: returns_def case_prod_unfold split: sum.splits)

lemma try_parsers_frames:
  "fst (snd (try_parsers env html ps pe)) =
     map_option (frames_of env html) (find (returns env html) (map Some ps))"
  by (induction ps arbitrary: pe)
     (simp_all add: returns_def frames_of_def case_prod_unfold split: sum.splits)

lemma extract_tables_events:
  "fst (extract_tables env html) = map ReadHtml (attempts_until (returns env html) strategies)"
proof -
  obtain evs df_list pe where t: "try_parsers env html parsers None = (evs, df_list, pe)"
    by (cases "try_parsers env html parsers None") auto
  have evs: "evs = map ReadHtml (attempts_until (returns env html) (map Some parsers))"
    using try_parsers_events [of env html parsers None] t by simp
  have dfl: "df_list = map_option (frames_of env html) (find (returns env html) (map Some parsers))"
    using try_parsers_frames [of env html parsers None] t by simp
  show ?thesis
  proof (cases df_list)
    case None
    with dfl have "\<not> list_ex (returns env html) (map Some parsers)"
      by (simp add: find_None_list_ex)
    with None t evs show ?thesis
      by (simp add: extract_tables_def strategies_def attempts_until_append attempts_until_all
            split: sum.splits)
  next
    case (Some dfs)
    with dfl have "list_ex (returns env html) (map Some parsers)"
      using find_None_list_ex [of "returns env html" "map Some parsers"] by auto
    with Some t evs show ?thesis
      by (simp add: extract_tables_def strategies_def attempts_until_append)
  qed
qed

text \<open>\<^verbatim>\<open>df_list\<close> is what the first strategy that returns handed back.\<close>

lemma extract_tables_frames:
  "fst (snd (extract_tables env html)) =
     map_option (frames_of env html) (find (returns env html) strategies)"
proof -
  obtain evs df_list pe where t: "try_parsers env html parsers None = (evs, df_list, pe)"
    by (cases "try_parsers env html parsers None") auto
  have dfl: "df_list = map_option (frames_of env html) (find (returns env html) (map Some parsers))"
    using try_parsers_frames [of env html parsers None] t by simp
  show ?thesis
    using t dfl
    by (cases "find (returns env html) (map Some parsers)")
       (simp_all add: extract_tables_def strategies_def find_append_single returns_def frames_of_def
          split: sum.splits)
qed

text \<open>\<^verbatim>\<open>_call_api\<close> once the body passed the test of line 152.\<close>

lemma call_api_after_classification:
  assumes "requests_get env ps = Got resp"
    and "raise_for_status resp = None"
    and "\<not> list_ex (\<lambda>i. str_contains i (resp_text resp)) no_results_indicators"
  shows "call_api env ps =
           (HttpGet ps # fst (extract_tables env (resp_text resp)),
            shape_result env (resp_text resp) (fst (snd (extract_tables env (resp_text resp))))
              (snd (snd (extract_tables env (resp_text resp)))))"
  using assms by (simp add: call_api_def case_prod_unfold Let_def)

section \<open>Classification of the response body\<close>

text \<open>
  Claim C1. When the request came back without an HTTP error and the body contains one of
  the four literal phrases of \<^const>\<open>no_results_indicators\<close>, with anything before and
  after it, \<^verbatim>\<open>_call_api\<close> returns the empty table \<^verbatim>\<open>{"header": [], "data": []}\<close>, and
  the request is all it did: \<^verbatim>\<open>pd.read_html\<close> is not called, whatever it would find.
\<close>

theorem primary_sentinel_short_circuits:
  assumes "requests_get env ps = Got resp"
    and "raise_for_status resp = None"
    and "indicator \<in> set no_results_indicators"
    and "resp_text resp = before @ indicator @ after"
  shows "call_api env ps = ([HttpGet ps], Table [] [])"
proof -
  have "str_contains indicator (resp_text resp)"
    using assms(4) by (simp add: str_contains_append)
  with assms(3)
  have "list_ex (\<lambda>i. str_contains i (resp_text resp)) no_results_indicators"
    by (rule list_ex_indicator)
  with assms(1,2) show ?thesis
    by (simp add: call_api_def)
qed

theorem primary_sentinel_short_circuits_witness:
  "call_api
     (sample_env (Decoded JNull)
        (Got (sample_response 200 ''<table><tr><td>x</td></tr></table><p>0 records found</p>''))
        (tables_found [sample_frame]))
     \<lparr>param_l = ''Canada|AB'', param_v = JStr ''''\<rparr>
   = ([HttpGet \<lparr>param_l = ''Canada|AB'', param_v = JStr ''''\<rparr>], Table [] [])"
  by (rule primary_sentinel_short_circuits
        [where resp = "sample_response 200 ''<table><tr><td>x</td></tr></table><p>0 records found</p>''"
           and indicator = "''0 records found''"
           and before = "''<table><tr><td>x</td></tr></table><p>''" and after = "''</p>''"])
     (simp_all add: sample_env_def sample_response_def raise_for_status_def no_results_indicators_def)

text \<open>
  Claim C2. The request came back without an HTTP error, the body holds none of the four
  phrases of line 145, and no strategy yields a table (each raises or hands back an empty
  list). Then the lowercased body decides: with one of \<^const>\<open>empty_patterns\<close> in it the
  result is the empty table; with none of them it is the error dict of line 188, whose
  message starts with the parse-failure text, and so not the empty table.
\<close>

theorem no_table_empty_or_parse_error:
  assumes "requests_get env ps = Got resp"
    and "raise_for_status resp = None"
    and "\<not> list_ex (\<lambda>i. str_contains i (resp_text resp)) no_results_indicators"
    and "\<And>f. \<not> yields_table env (resp_text resp) f"
  shows "if list_ex (\<lambda>pattern. str_contains pattern (lower (resp_text resp))) empty_patterns
         then snd (call_api env ps) = Table [] []
         else \<exists>cause. snd (call_api env ps) =
                Error (''Gagal mem-parsing tabel dari respons API: '' @ cause) None"
proof -
  let ?html = "resp_text resp"
  have "frames_of env ?html f = []" for f
    using assms(4) [of f] by (simp add: yields_table_def frames_of_def split: sum.splits)
  then have "fst (snd (extract_tables env ?html)) = None
             \<or> fst (snd (extract_tables env ?html)) = Some []"
    by (cases "find (returns env ?html) strategies") (simp_all add: extract_tables_frames)
  then show ?thesis
    using call_api_after_classification [OF assms(1-3)]
    by (auto simp: shape_result_def)
qed

theorem no_table_empty_or_parse_error_witness:
  "snd (call_api
          (sample_env (Decoded JNull) (Got (sample_response 200 ''<p>Search returned No Data</p>''))
             no_tables_found)
          \<lparr>param_l = '''', param_v = JStr ''zzz''\<rparr>) = Table [] []
   \<and> (\<exists>cause.
        snd (call_api
               (sample_env (Decoded JNull) (Got (sample_response 200 ''<p>Service restarting</p>''))
                  no_tables_found)
               \<lparr>param_l = '''', param_v = JStr ''zzz''\<rparr>)
        = Error (''Gagal mem-parsing tabel dari respons API: '' @ cause) None)"
proof -
  have l1: "lower ''<p>Search returned No Data</p>'' = ''<p>search returned no data</p>''"
    by code_simp
  have l2: "lower ''<p>Service restarting</p>'' = ''<p>service restarting</p>''"
    by code_simp
  show ?thesis
    using no_table_empty_or_parse_error
            [where env = "sample_env (Decoded JNull)
                            (Got (sample_response 200 ''<p>Search returned No Data</p>'')) no_tables_found"
               and ps = "\<lparr>param_l = '''', param_v = JStr ''zzz''\<rparr>"
               and resp = "sample_response 200 ''<p>Search returned No Data</p>''"]
          no_table_empty_or_parse_error
            [where env = "sample_env (Decoded JNull)
                            (Got (sample_response 200 ''<p>Service restarting</p>'')) no_tables_found"
               and ps = "\<lparr>param_l = '''', param_v = JStr ''zzz''\<rparr>"
               and resp = "sample_response 200 ''<p>Service restarting</p>''"]
    by (simp add: sample_env_def sample_response_def raise_for_status_def no_results_indicators_def
          empty_patterns_def yields_table_def no_tables_found_def l1 l2)
qed

section \<open>Shaping the first table\<close>

lemma shape_result_first:
  "shape_result env html (Some (df # later)) pe =
     Table (map (py_str env) (df_columns df)) (map (map (py_str env)) (df_values df))"
  by (simp add: shape_result_def)

text \<open>
  Claim C5. The request came back without an HTTP error, the body holds none of the four
  phrases, and the first strategy that returns hands back a frame of N rows and M columns,
  followed by any further frames. Then the result is a table whose header is the M column
  labels and whose data are the N rows of M cells, each label and cell passed through
  \<^verbatim>\<open>str\<close>; the further frames have no influence on it.
\<close>

theorem first_table_becomes_rows:
  assumes "requests_get env ps = Got resp"
    and "raise_for_status resp = None"
    and "\<not> list_ex (\<lambda>i. str_contains i (resp_text resp)) no_results_indicators"
    and "find (returns env (resp_text resp)) strategies = Some f"
    and "read_html env f (resp_text resp) = Inr (df # later)"
    and "shape df N M"
  shows "snd (call_api env ps) =
           Table (map (py_str env) (df_columns df)) (map (map (py_str env)) (df_values df))
         \<and> length (header (snd (call_api env ps))) = M
         \<and> length (data (snd (call_api env ps))) = N
         \<and> list_all (\<lambda>row. length row = M) (data (snd (call_api env ps)))"
proof -
  have "fst (snd (extract_tables env (resp_text resp))) = Some (df # later)"
    using assms(4,5) by (simp add: extract_tables_frames frames_of_def)
  then have r: "snd (call_api env ps) =
           Table (map (py_str env) (df_columns df)) (map (map (py_str env)) (df_values df))"
    using call_api_after_classification [OF assms(1-3)] by (simp add: shape_result_first)
  from assms(6) have "length (df_columns df) = M" "length (df_values df) = N"
    "list_all (\<lambda>row. length row = M) (df_values df)"
    by (simp_all add: shape_def)
  with r show ?thesis
    by (simp add: list_all_iff)
qed

theorem first_table_becomes_rows_witness:
  "snd (call_api
          (sample_env (Decoded JNull) (Got (sample_response 200 ''<table><tr><td>x</td></tr></table>''))
             (tables_found [sample_frame, other_frame]))
          sample_params)
   = Table [''Name'', ''State'']
       [[''Circle M'', ''TX''], [''Sullivan Farms'', ''KS''], [''Creek Ranch'', ''IA'']]"
  using first_table_becomes_rows
          [where env = "sample_env (Decoded JNull)
                          (Got (sample_response 200 ''<table><tr><td>x</td></tr></table>''))
                          (tables_found [sample_frame, other_frame])"
             and ps = sample_params
             and resp = "sample_response 200 ''<table><tr><td>x</td></tr></table>''"
             and f = "Some html5lib" and df = sample_frame and later = "[other_frame]"
             and N = 3 and M = 2]
  by (simp add: sample_env_def sample_response_def raise_for_status_def no_results_indicators_def
        strategies_def parsers_def returns_def tables_found_def sample_frame_def shape_def)

section \<open>The order of the extraction strategies\<close>

lemma set_attempts_until: "set (attempts_until stop xs) \<subseteq> set xs"
  by (induction xs) auto

lemma generic_attempt_iff:
  "None \<in> set (attempts_until stop (map Some xs @ [None])) \<longleftrightarrow> \<not> list_ex stop (map Some xs)"
proof (cases "list_ex stop (map Some xs)")
  case True
  have "None \<notin> set (map Some xs)" by auto
  with set_attempts_until [of stop "map Some xs"]
  have "None \<notin> set (attempts_until stop (map Some xs))" by blast
  with True show ?thesis by (simp add: attempts_until_append)
next
  case False
  then show ?thesis by (simp add: attempts_until_append)
qed

text \<open>
  Claim C6, as stated, makes \<^verbatim>\<open>_call_api\<close> go on until a strategy yields at least one
  table. The loop of line 162 ends at the first call that returns: here \<^verbatim>\<open>html5lib\<close> hands
  back an empty list and is the only strategy tried, although \<^verbatim>\<open>lxml\<close>, third in the
  list, would have found a table.
\<close>

theorem stops_at_empty_list_counterexample:
  "fst (call_api empty_first_env sample_params) = [HttpGet sample_params, ReadHtml (Some html5lib)]
   \<and> attempts_until (yields_table empty_first_env ''<table><tr><td> </td></tr></table>'') strategies
       = [Some html5lib, Some bs4, Some lxml]"
  by (simp add: call_api_def empty_first_env_def sample_env_def sample_response_def
        raise_for_status_def no_results_indicators_def extract_tables_def parsers_def
        lxml_finds_def strategies_def yields_table_def Let_def)

text \<open>
  Claim C6, amended. When the request came back without an HTTP error and the body holds
  none of the four phrases, \<^verbatim>\<open>_call_api\<close> calls the strategies in the order
  \<^verbatim>\<open>html5lib\<close>, \<^verbatim>\<open>bs4\<close>, \<^verbatim>\<open>lxml\<close>, then without a flavor, one at a time, goes on only
  after a call that raised, and stops at the first call that returns, be its list of
  tables empty or not; the call without a flavor is made exactly when all three flavors
  raised.
\<close>

theorem strategies_tried_until_first_return:
  assumes "requests_get env ps = Got resp"
    and "raise_for_status resp = None"
    and "\<not> list_ex (\<lambda>i. str_contains i (resp_text resp)) no_results_indicators"
  shows "fst (call_api env ps) =
           HttpGet ps # map ReadHtml (attempts_until (returns env (resp_text resp)) strategies)
         \<and> (ReadHtml None \<in> set (fst (call_api env ps))
              \<longleftrightarrow> \<not> list_ex (returns env (resp_text resp)) (map Some parsers))"
proof -
  let ?tried = "attempts_until (returns env (resp_text resp)) strategies"
  have ev: "fst (call_api env ps) = HttpGet ps # map ReadHtml ?tried"
    using call_api_after_classification [OF assms] by (simp add: extract_tables_events)
  have "ReadHtml None \<in> set (map ReadHtml ?tried) \<longleftrightarrow> None \<in> set ?tried"
    by auto
  with ev show ?thesis
    by (simp add: strategies_def generic_attempt_iff)
qed

theorem strategies_tried_until_first_return_witness:
  "fst (call_api
          (sample_env (Decoded JNull) (Got (sample_response 200 ''<p>Service restarting</p>''))
             no_tables_found)
          sample_params)
   = [HttpGet sample_params, ReadHtml (Some html5lib), ReadHtml (Some bs4), ReadHtml (Some lxml),
      ReadHtml None]"
  using strategies_tried_until_first_return
          [where env = "sample_env (Decoded JNull)
                          (Got (sample_response 200 ''<p>Service restarting</p>'')) no_tables_found"
             and ps = sample_params
             and resp = "sample_response 200 ''<p>Service restarting</p>''"]
  by (simp add: sample_env_def sample_response_def raise_for_status_def no_results_indicators_def
        strategies_def parsers_def returns_def no_tables_found_def)

section \<open>Failures of the request\<close>

text \<open>
  Claim C8, as stated, makes every status outside 200..299 a network error.
  \<^verbatim>\<open>raise_for_status\<close> raises for 400..599 only: a response with status 300 is classified
  and parsed like a successful one, and its table is returned.
\<close>

theorem status_300_is_parsed_counterexample:
  "requests_get status_300_env sample_params
     = Got (sample_response 300 ''<table><tr><th>Name</th><th>State</th></tr></table>'')
   \<and> call_api status_300_env sample_params
     = ([HttpGet sample_params, ReadHtml (Some html5lib)],
        Table [''Name'', ''State'']
          [[''Circle M'', ''TX''], [''Sullivan Farms'', ''KS''], [''Creek Ranch'', ''IA'']])"
  by (simp add: call_api_def status_300_env_def sample_env_def sample_response_def
        raise_for_status_def no_results_indicators_def extract_tables_def parsers_def
        tables_found_def shape_result_def sample_frame_def)

text \<open>
  Claim C8, amended. When \<^verbatim>\<open>requests.get\<close> raises a \<^verbatim>\<open>RequestException\<close>, or the
  response has a status from 400 to 599, \<^verbatim>\<open>_call_api\<close> returns the error dict of line 203
  after that one request: there is no second request and no call of \<^verbatim>\<open>pd.read_html\<close>, and
  the body of the response has no influence on the result.
\<close>

theorem request_failure_is_terminal:
  "(requests_get env ps = GetRaised RequestException e \<longrightarrow>
      call_api env ps = ([HttpGet ps], Error (''Gagal menghubungi API: '' @ e) None))
   \<and> (requests_get env ps = Got resp \<and> 400 \<le> status_code resp \<and> status_code resp < 600 \<longrightarrow>
      call_api env ps =
        ([HttpGet ps],
         Error (''Gagal menghubungi API: '' @ show_nat (status_code resp)
                @ (if status_code resp < 500 then '' Client Error: '' else '' Server Error: '')
                @ reason resp @ '' for url: '' @ url resp) None))"
  by (auto simp: call_api_def raise_for_status_def)

theorem request_failure_is_terminal_witness:
  "call_api
     (sample_env (Decoded JNull) (GetRaised RequestException ''Connection refused'')
        (tables_found [sample_frame]))
     sample_params
   = ([HttpGet sample_params], Error ''Gagal menghubungi API: Connection refused'' None)
   \<and> call_api
       (sample_env (Decoded JNull) (Got (sample_response 404 ''<p>No records found</p>''))
          (tables_found [sample_frame]))
       sample_params
     = ([HttpGet sample_params],
        Error ''Gagal menghubungi API: 404 Client Error: - for url: http://example.test/'' None)"
proof -
  have n: "show_nat 404 = ''404''"
    by code_simp
  show ?thesis
    using request_failure_is_terminal
            [where env = "sample_env (Decoded JNull) (GetRaised RequestException ''Connection refused'')
                            (tables_found [sample_frame])"
               and ps = sample_params and e = "''Connection refused''"]
          request_failure_is_terminal
            [where env = "sample_env (Decoded JNull)
                            (Got (sample_response 404 ''<p>No records found</p>''))
                            (tables_found [sample_frame])"
               and ps = sample_params
               and resp = "sample_response 404 ''<p>No records found</p>''"]
    by (simp add: sample_env_def sample_response_def n)
qed

section \<open>The registry\<close>

lemma registry_keys_distinct: "distinct (map fst LOCATION_DATA)"
  by (simp add: LOCATION_DATA_def)

lemma registry_entries_well_formed:
  "list_all
     (\<lambda>(k, e). k \<noteq> [] \<and> distinct (map fst (provinces e))
        \<and> list_all (\<lambda>(p, code). p \<noteq> [] \<and> code \<noteq> []) (provinces e))
     LOCATION_DATA"
  by (simp add: LOCATION_DATA_def)

lemma registered_country:
  assumes "(k, entry) \<in> set LOCATION_DATA"
  shows "map_of LOCATION_DATA k = Some entry" and "k \<noteq> []"
proof -
  show "map_of LOCATION_DATA k = Some entry"
    using assms registry_keys_distinct by (rule_tac map_of_is_SomeI)
  show "k \<noteq> []"
    using assms registry_entries_well_formed by (auto simp: list_all_iff)
qed

lemma registered_province:
  assumes "(k, entry) \<in> set LOCATION_DATA" and "(p, code) \<in> set (provinces entry)"
  shows "map_of (provinces entry) p = Some code" and "p \<noteq> []" and "code \<noteq> []"
proof -
  have d: "distinct (map fst (provinces entry))"
    and ne: "list_all (\<lambda>(p, code). p \<noteq> [] \<and> code \<noteq> []) (provinces entry)"
    using assms(1) registry_entries_well_formed by (auto simp: list_all_iff)
  show "map_of (provinces entry) p = Some code"
    using d assms(2) by (rule map_of_is_SomeI)
  show "p \<noteq> []" and "code \<noteq> []"
    using ne assms(2) by (auto simp: list_all_iff)
qed

lemma lower_Nil_iff: "lower s = [] \<longleftrightarrow> s = []"
  by (simp add: lower_def)

section \<open>The parameters \<^verbatim>\<open>search\<close> builds\<close>

lemma dict_get_nonempty: "dict_get q k \<noteq> JNull \<Longrightarrow> q \<noteq> []"
  by (auto simp: dict_get_def)

lemma build_params_no_country:
  "\<not> truthy (dict_get q ''country'') \<Longrightarrow>
   build_params (JObj q) =
     Proceeds \<lparr>param_l = '''', param_v = py_or (dict_get q ''name'') (JStr '''')\<rparr>"
  by (simp add: build_params_def)

lemma build_params_unknown_country:
  "dict_get q ''country'' = JStr c \<Longrightarrow> c \<noteq> [] \<Longrightarrow> map_of LOCATION_DATA (lower c) = None \<Longrightarrow>
   build_params (JObj q) = Returns (Error (''Negara tidak dikenal: '' @ c) None)"
  by (simp add: build_params_def)

lemma build_params_country_only:
  "dict_get q ''country'' = JStr c \<Longrightarrow> c \<noteq> [] \<Longrightarrow> map_of LOCATION_DATA (lower c) = Some entry \<Longrightarrow>
   \<not> truthy (dict_get q ''province'') \<Longrightarrow>
   build_params (JObj q) =
     Proceeds \<lparr>param_l = api_code entry @ ''|'', param_v = py_or (dict_get q ''name'') (JStr '''')\<rparr>"
  by (simp add: build_params_def)

lemma build_params_unknown_province:
  "dict_get q ''country'' = JStr c \<Longrightarrow> c \<noteq> [] \<Longrightarrow> map_of LOCATION_DATA (lower c) = Some entry \<Longrightarrow>
   dict_get q ''province'' = JStr p \<Longrightarrow> p \<noteq> [] \<Longrightarrow> map_of (provinces entry) (lower p) = None \<Longrightarrow>
   build_params (JObj q) = Returns (Error (unknown_province_message p c) None)"
  by (simp add: build_params_def)

lemma build_params_province:
  "dict_get q ''country'' = JStr c \<Longrightarrow> c \<noteq> [] \<Longrightarrow> map_of LOCATION_DATA (lower c) = Some entry \<Longrightarrow>
   dict_get q ''province'' = JStr p \<Longrightarrow> p \<noteq> [] \<Longrightarrow>
   map_of (provinces entry) (lower p) = Some code \<Longrightarrow> code \<noteq> [] \<Longrightarrow>
   build_params (JObj q) =
     Proceeds \<lparr>param_l = api_code entry @ ''|'' @ code,
               param_v = py_or (dict_get q ''name'') (JStr '''')\<rparr>"
  by (simp add: build_params_def)

lemma build_params_name:
  "build_params (JObj q) = Proceeds ps \<Longrightarrow> param_v ps = py_or (dict_get q ''name'') (JStr '''')"
  by (auto simp: build_params_def Let_def split: if_splits json.splits option.splits)

text \<open>\<^verbatim>\<open>search\<close> once the interpreter gave a dict that is not empty and has no error key.\<close>

lemma search_interpreted:
  assumes "interpret_command (ai_model env) command = JObj q"
    and "q \<noteq> []"
    and "map_of q ''error'' = None"
  shows "search env command =
           (case build_params (JObj q) of
              Raises x \<Rightarrow> ([], Raised x)
            | Returns r \<Rightarrow> ([], Returned r)
            | Proceeds ps \<Rightarrow> return_call_api env ps)"
proof -
  have "''error'' \<notin> fst ` set q"
    using assms(3) by (simp add: map_of_eq_None_iff)
  then have "interpretation_failed (JObj q) = Inr False"
    using assms(2) by (simp add: interpretation_failed_def)
  then show ?thesis
    using assms(1) by (simp add: search_def)
qed

text \<open>\<^verbatim>\<open>_call_api\<close> sends one request, with the parameters it was given, before anything else.\<close>

lemma call_api_first_event: "\<exists>evs. fst (call_api env ps) = HttpGet ps # evs"
  by (auto simp: call_api_def Let_def case_prod_unfold
        split: http_outcome.splits exc_class.splits option.splits)

lemma call_api_requests: "HttpGet p \<in> set (fst (call_api env ps)) \<Longrightarrow> p = ps"
  by (auto simp: call_api_def Let_def case_prod_unfold extract_tables_events
        split: http_outcome.splits exc_class.splits option.splits if_splits)

lemma return_call_api_requests: "HttpGet p \<in> set (fst (return_call_api env ps)) \<Longrightarrow> p = ps"
  using call_api_requests [of p env ps] by (simp add: return_call_api_def case_prod_unfold)

section \<open>Resolution of the location\<close>

text \<open>
  Claim C3, as stated, makes every country that is present and no key of the registry an
  unknown-country error, and every present province that is no key of the country's
  provinces an unknown-province error, with no request sent. The empty string is present
  and is no key, but it is false at lines 118 and 124: with the country empty \<^verbatim>\<open>search\<close>
  sends a request with \<^verbatim>\<open>l\<close> empty, unfiltered by location, and with the province of
  Canada empty it sends a request for all of Canada.
\<close>

theorem empty_string_location_is_requested_counterexample:
  "'''' \<notin> fst ` set LOCATION_DATA
   \<and> search empty_country_env ''Find all ranches''
       = ([HttpGet \<lparr>param_l = '''', param_v = JStr ''''\<rparr>], Returned (Table [] []))
   \<and> '''' \<notin> fst ` set [(''alberta'', ''AB''), (''ontario'', ''ON''), (''quebec'', ''QC''),
                          (''saskatchewan'', ''SK'')]
   \<and> search empty_province_env ''Find all ranches in Canada''
       = ([HttpGet \<lparr>param_l = ''Canada|'', param_v = JStr ''''\<rparr>], Returned (Table [] []))"
proof -
  have l: "lower ''canada'' = ''canada''"
    by code_simp
  show ?thesis
    by (simp add: search_def empty_country_env_def empty_province_env_def sample_env_def
          interpret_command_def interpretation_failed_def query_def build_params_def dict_get_def
          py_or_def l LOCATION_DATA_def return_call_api_def call_api_def sample_response_def
          raise_for_status_def no_results_indicators_def)
qed

text \<open>
  Claim C3, amended. The interpreter gave a dict without an error key whose country is a
  string that is not empty. If the lowercased country is no key of \<^const>\<open>LOCATION_DATA\<close>,
  \<^verbatim>\<open>search\<close> returns the unknown-country error dict of line 121. If it is a key and the
  province is a string that is not empty and, lowercased, no key of the provinces of that
  country, \<^verbatim>\<open>search\<close> returns the unknown-province error dict of line 127. In both cases
  the list of what \<^verbatim>\<open>search\<close> did is empty: no request was sent.
\<close>

theorem unknown_location_fails_without_request:
  assumes "interpret_command (ai_model env) command = JObj q"
    and "map_of q ''error'' = None"
    and "dict_get q ''country'' = JStr c"
    and "c \<noteq> []"
  shows "(lower c \<notin> fst ` set LOCATION_DATA \<longrightarrow>
            search env command = ([], Returned (Error (''Negara tidak dikenal: '' @ c) None)))
         \<and> ((lower c, entry) \<in> set LOCATION_DATA \<and> dict_get q ''province'' = JStr p \<and> p \<noteq> []
              \<and> lower p \<notin> fst ` set (provinces entry) \<longrightarrow>
            search env command = ([], Returned (Error (unknown_province_message p c) None)))"
proof -
  have q: "q \<noteq> []"
    using assms(3) dict_get_nonempty [of q "''country''"] by simp
  note s = search_interpreted [OF assms(1) q assms(2)]
  show ?thesis
  proof (intro conjI impI)
    assume "lower c \<notin> fst ` set LOCATION_DATA"
    then have "map_of LOCATION_DATA (lower c) = None"
      by (simp add: map_of_eq_None_iff)
    with s show "search env command = ([], Returned (Error (''Negara tidak dikenal: '' @ c) None))"
      by (simp add: build_params_unknown_country [OF assms(3,4)])
  next
    assume a: "(lower c, entry) \<in> set LOCATION_DATA \<and> dict_get q ''province'' = JStr p \<and> p \<noteq> []
                 \<and> lower p \<notin> fst ` set (provinces entry)"
    then have e: "map_of LOCATION_DATA (lower c) = Some entry"
      by (simp add: registered_country)
    from a have "map_of (provinces entry) (lower p) = None"
      by (simp add: map_of_eq_None_iff)
    with a s show "search env command = ([], Returned (Error (unknown_province_message p c) None))"
      by (simp add: build_params_unknown_province [OF assms(3,4) e])
  qed
qed

theorem unknown_location_fails_without_request_witness:
  "search
     (sample_env (Decoded (JObj (query (JStr ''atlantis'') JNull JNull)))
        (Got (sample_response 200 ''<table></table>'')) (tables_found [sample_frame]))
     ''Find ranches in Atlantis''
   = ([], Returned (Error ''Negara tidak dikenal: atlantis'' None))
   \<and> search
       (sample_env (Decoded (JObj (query (JStr ''canada'') (JStr ''texas'') JNull)))
          (Got (sample_response 200 ''<table></table>'')) (tables_found [sample_frame]))
       ''Find ranches in Texas, Canada''
     = ([], Returned (Error (unknown_province_message ''texas'' ''canada'') None))"
proof -
  have l: "lower ''atlantis'' = ''atlantis''" "lower ''canada'' = ''canada''"
    "lower ''texas'' = ''texas''"
    by code_simp+
  show ?thesis
    using unknown_location_fails_without_request
            [where env = "sample_env (Decoded (JObj (query (JStr ''atlantis'') JNull JNull)))
                            (Got (sample_response 200 ''<table></table>''))
                            (tables_found [sample_frame])"
               and command = "''Find ranches in Atlantis''"
               and q = "query (JStr ''atlantis'') JNull JNull" and c = "''atlantis''"]
          unknown_location_fails_without_request
            [where env = "sample_env (Decoded (JObj (query (JStr ''canada'') (JStr ''texas'') JNull)))
                            (Got (sample_response 200 ''<table></table>''))
                            (tables_found [sample_frame])"
               and command = "''Find ranches in Texas, Canada''"
               and q = "query (JStr ''canada'') (JStr ''texas'') JNull" and c = "''canada''"
               and p = "''texas''"
               and entry = "\<lparr>api_code = ''Canada'',
                              provinces = [(''alberta'', ''AB''), (''ontario'', ''ON''),
                                           (''quebec'', ''QC''), (''saskatchewan'', ''SK'')]\<rparr>"]
    by (simp add: sample_env_def interpret_command_def query_def dict_get_def l LOCATION_DATA_def)
qed

text \<open>
  Claim C4. The interpreter gave a dict without an error key whose country is a string.
  Matching is on the lowercased input and on whole keys only. If the lowercased country is
  a key of \<^const>\<open>LOCATION_DATA\<close> and the lowercased province a key of its provinces,
  \<^verbatim>\<open>search\<close> calls \<^verbatim>\<open>_call_api\<close> with \<^verbatim>\<open>l\<close> equal to the api code, a bar and the province
  code; with no province, \<^verbatim>\<open>l\<close> is the api code and a bar. A country or province that,
  lowercased, is no key gives an error dict and no request.
\<close>

theorem location_parameter_built_from_registry:
  assumes "interpret_command (ai_model env) command = JObj q"
    and "map_of q ''error'' = None"
    and "dict_get q ''country'' = JStr c"
  shows "((lower c, entry) \<in> set LOCATION_DATA \<and> dict_get q ''province'' = JStr p
              \<and> (lower p, code) \<in> set (provinces entry) \<longrightarrow>
            search env command =
              return_call_api env
                \<lparr>param_l = api_code entry @ ''|'' @ code,
                 param_v = py_or (dict_get q ''name'') (JStr '''')\<rparr>)
         \<and> ((lower c, entry) \<in> set LOCATION_DATA \<and> dict_get q ''province'' = JNull \<longrightarrow>
            search env command =
              return_call_api env
                \<lparr>param_l = api_code entry @ ''|'',
                 param_v = py_or (dict_get q ''name'') (JStr '''')\<rparr>)
         \<and> (c \<noteq> [] \<and> lower c \<notin> fst ` set LOCATION_DATA \<longrightarrow>
            fst (search env command) = [] \<and> (\<exists>m. snd (search env command) = Returned (Error m None)))
         \<and> ((lower c, entry) \<in> set LOCATION_DATA \<and> dict_get q ''province'' = JStr p \<and> p \<noteq> []
              \<and> lower p \<notin> fst ` set (provinces entry) \<longrightarrow>
            fst (search env command) = [] \<and> (\<exists>m. snd (search env command) = Returned (Error m None)))"
proof -
  have q: "q \<noteq> []"
    using assms(3) dict_get_nonempty [of q "''country''"] by simp
  note s = search_interpreted [OF assms(1) q assms(2)]
  have c: "c \<noteq> []" and e: "map_of LOCATION_DATA (lower c) = Some entry"
    if "(lower c, entry) \<in> set LOCATION_DATA"
    using registered_country [OF that] by (simp_all add: lower_Nil_iff)
  have both: "search env command =
                 return_call_api env
                   \<lparr>param_l = api_code entry @ ''|'' @ code,
                    param_v = py_or (dict_get q ''name'') (JStr '''')\<rparr>"
    if r: "(lower c, entry) \<in> set LOCATION_DATA" and pr: "dict_get q ''province'' = JStr p"
      and m: "(lower p, code) \<in> set (provinces entry)"
  proof -
    have "p \<noteq> []" "map_of (provinces entry) (lower p) = Some code" "code \<noteq> []"
      using registered_province [OF r m] by (simp_all add: lower_Nil_iff)
    then show ?thesis
      using s by (simp add: build_params_province [OF assms(3) c [OF r] e [OF r] pr])
  qed
  have country_only: "search env command =
                 return_call_api env
                   \<lparr>param_l = api_code entry @ ''|'',
                    param_v = py_or (dict_get q ''name'') (JStr '''')\<rparr>"
    if r: "(lower c, entry) \<in> set LOCATION_DATA" and pr: "dict_get q ''province'' = JNull"
    using s pr by (simp add: build_params_country_only [OF assms(3) c [OF r] e [OF r]])
  have miss_country: "fst (search env command) = []
                     \<and> (\<exists>m. snd (search env command) = Returned (Error m None))"
    if "c \<noteq> []" and "lower c \<notin> fst ` set LOCATION_DATA"
  proof -
    have "map_of LOCATION_DATA (lower c) = None"
      using that(2) by (simp add: map_of_eq_None_iff)
    then show ?thesis
      using s by (simp add: build_params_unknown_country [OF assms(3) that(1)])
  qed
  have miss_province: "fst (search env command) = []
                   \<and> (\<exists>m. snd (search env command) = Returned (Error m None))"
    if r: "(lower c, entry) \<in> set LOCATION_DATA" and pr: "dict_get q ''province'' = JStr p"
      and p: "p \<noteq> []" and "lower p \<notin> fst ` set (provinces entry)"
  proof -
    have "map_of (provinces entry) (lower p) = None"
      using that(4) by (simp add: map_of_eq_None_iff)
    then show ?thesis
      using s by (simp add: build_params_unknown_province [OF assms(3) c [OF r] e [OF r] pr p])
  qed
  from both country_only miss_country miss_province show ?thesis
    by blast
qed

theorem location_parameter_built_from_registry_witness:
  "search
     (sample_env (Decoded (JObj (query (JStr ''Canada'') (JStr ''ALBERTA'') (JStr ''Creek''))))
        (Got (sample_response 200 ''<table></table>'')) (tables_found [sample_frame]))
     ''Find ranches named Creek in Alberta, Canada''
   = return_call_api
       (sample_env (Decoded (JObj (query (JStr ''Canada'') (JStr ''ALBERTA'') (JStr ''Creek''))))
          (Got (sample_response 200 ''<table></table>'')) (tables_found [sample_frame]))
       \<lparr>param_l = ''Canada|AB'', param_v = JStr ''Creek''\<rparr>"
proof -
  have l: "lower ''Canada'' = ''canada''" "lower ''ALBERTA'' = ''alberta''"
    by code_simp+
  show ?thesis
    using location_parameter_built_from_registry
            [where env = "sample_env (Decoded (JObj (query (JStr ''Canada'') (JStr ''ALBERTA'')
                                                      (JStr ''Creek''))))
                            (Got (sample_response 200 ''<table></table>''))
                            (tables_found [sample_frame])"
               and command = "''Find ranches named Creek in Alberta, Canada''"
               and q = "query (JStr ''Canada'') (JStr ''ALBERTA'') (JStr ''Creek'')"
               and c = "''Canada''" and p = "''ALBERTA''" and code = "''AB''"
               and entry = "\<lparr>api_code = ''Canada'',
                              provinces = [(''alberta'', ''AB''), (''ontario'', ''ON''),
                                           (''quebec'', ''QC''), (''saskatchewan'', ''SK'')]\<rparr>"]
    by (simp add: sample_env_def interpret_command_def query_def dict_get_def l LOCATION_DATA_def
          py_or_def)
qed

section \<open>Absent and empty fields\<close>

lemma py_or_text_or_null: "text_or_null name \<Longrightarrow> py_or name (JStr '''') = null_to_empty name"
  by (cases name) (simp_all add: py_or_def null_to_empty_def)

text \<open>
  Claim C9. The interpreter gave a dict that is not empty and has no error key, and the name
  is a string or \<^verbatim>\<open>None\<close> (a missing key reads as \<^verbatim>\<open>None\<close>). If the country is
  \<^verbatim>\<open>None\<close>, \<^verbatim>\<open>search\<close> calls \<^verbatim>\<open>_call_api\<close> with \<^verbatim>\<open>l\<close> empty. Whatever the country and
  the province are, every request \<^verbatim>\<open>search\<close> sends carries as \<^verbatim>\<open>v\<close> the name as it
  is, letter case included, with \<^verbatim>\<open>None\<close> replaced by the empty string.
\<close>

theorem absent_country_and_name_passthrough:
  assumes "interpret_command (ai_model env) command = JObj q"
    and "q \<noteq> []"
    and "map_of q ''error'' = None"
    and "text_or_null (dict_get q ''name'')"
  shows "(dict_get q ''country'' = JNull \<longrightarrow>
            search env command =
              return_call_api env
                \<lparr>param_l = '''', param_v = null_to_empty (dict_get q ''name'')\<rparr>)
         \<and> (HttpGet ps \<in> set (fst (search env command)) \<longrightarrow>
              param_v ps = null_to_empty (dict_get q ''name''))"
proof -
  note s = search_interpreted [OF assms(1-3)]
  note v = py_or_text_or_null [OF assms(4)]
  have unfiltered: "search env command =
              return_call_api env
                \<lparr>param_l = '''', param_v = null_to_empty (dict_get q ''name'')\<rparr>"
    if "dict_get q ''country'' = JNull"
  proof -
    have "\<not> truthy (dict_get q ''country'')"
      using that by simp
    then show ?thesis
      using s v by (simp add: build_params_no_country)
  qed
  have name: "param_v ps = null_to_empty (dict_get q ''name'')"
    if sent: "HttpGet ps \<in> set (fst (search env command))"
  proof (cases "build_params (JObj q)")
    case (Raises x)
    with s sent show ?thesis by simp
  next
    case (Returns r)
    with s sent show ?thesis by simp
  next
    case (Proceeds ps0)
    with s sent have "HttpGet ps \<in> set (fst (return_call_api env ps0))"
      by simp
    then have "ps = ps0"
      by (rule return_call_api_requests)
    with Proceeds v show ?thesis
      by (simp add: build_params_name)
  qed
  from unfiltered name show ?thesis
    by blast
qed

theorem absent_country_and_name_passthrough_witness:
  "search
     (sample_env (Decoded (JObj (query JNull JNull (JStr ''Circle M''))))
        (Got (sample_response 200 ''<table></table>'')) (tables_found [sample_frame]))
     ''Search for Circle M''
   = return_call_api
       (sample_env (Decoded (JObj (query JNull JNull (JStr ''Circle M''))))
          (Got (sample_response 200 ''<table></table>'')) (tables_found [sample_frame]))
       \<lparr>param_l = '''', param_v = JStr ''Circle M''\<rparr>"
  using absent_country_and_name_passthrough
          [where env = "sample_env (Decoded (JObj (query JNull JNull (JStr ''Circle M''))))
                          (Got (sample_response 200 ''<table></table>''))
                          (tables_found [sample_frame])"
             and command = "''Search for Circle M''"
             and q = "query JNull JNull (JStr ''Circle M'')"]
  by (simp add: sample_env_def interpret_command_def query_def dict_get_def null_to_empty_def)

text \<open>
  Claim C10. The interpreter gave a dict without an error key. A country that is the empty
  string is false at line 118, so \<^verbatim>\<open>search\<close> calls \<^verbatim>\<open>_call_api\<close> with \<^verbatim>\<open>l\<close> empty and
  returns no unknown-country error. With a registered country, a province that is the empty
  string is false at line 124, so \<^verbatim>\<open>l\<close> is the api code and a bar, and there is no
  unknown-province error.
\<close>

theorem empty_strings_count_as_absent:
  assumes "interpret_command (ai_model env) command = JObj q"
    and "map_of q ''error'' = None"
  shows "(dict_get q ''country'' = JStr '''' \<longrightarrow>
            search env command =
              return_call_api env
                \<lparr>param_l = '''', param_v = py_or (dict_get q ''name'') (JStr '''')\<rparr>)
         \<and> (dict_get q ''country'' = JStr c \<and> (lower c, entry) \<in> set LOCATION_DATA
              \<and> dict_get q ''province'' = JStr '''' \<longrightarrow>
            search env command =
              return_call_api env
                \<lparr>param_l = api_code entry @ ''|'',
                 param_v = py_or (dict_get q ''name'') (JStr '''')\<rparr>)"
proof -
  have empty_country: "search env command =
              return_call_api env
                \<lparr>param_l = '''', param_v = py_or (dict_get q ''name'') (JStr '''')\<rparr>"
    if c0: "dict_get q ''country'' = JStr ''''"
  proof -
    have "q \<noteq> []"
      using c0 dict_get_nonempty [of q "''country''"] by simp
    from search_interpreted [OF assms(1) this assms(2)] c0 show ?thesis
      by (simp add: build_params_no_country)
  qed
  have empty_province: "search env command =
              return_call_api env
                \<lparr>param_l = api_code entry @ ''|'',
                 param_v = py_or (dict_get q ''name'') (JStr '''')\<rparr>"
    if cc: "dict_get q ''country'' = JStr c" and r: "(lower c, entry) \<in> set LOCATION_DATA"
      and p0: "dict_get q ''province'' = JStr ''''"
  proof -
    have "q \<noteq> []"
      using cc dict_get_nonempty [of q "''country''"] by simp
    note s = search_interpreted [OF assms(1) this assms(2)]
    have "c \<noteq> []" "map_of LOCATION_DATA (lower c) = Some entry"
      using registered_country [OF r] by (simp_all add: lower_Nil_iff)
    with s p0 show ?thesis
      by (simp add: build_params_country_only [OF cc])
  qed
  from empty_country empty_province show ?thesis
    by blast
qed

theorem empty_strings_count_as_absent_witness:
  "search
     (sample_env (Decoded (JObj (query (JStr '''') (JStr ''texas'') JNull)))
        (Got (sample_response 200 ''<table></table>'')) (tables_found [sample_frame]))
     ''Find all ranches''
   = return_call_api
       (sample_env (Decoded (JObj (query (JStr '''') (JStr ''texas'') JNull)))
          (Got (sample_response 200 ''<table></table>'')) (tables_found [sample_frame]))
       \<lparr>param_l = '''', param_v = JStr ''''\<rparr>
   \<and> search
       (sample_env (Decoded (JObj (query (JStr ''argentina'') (JStr '''') JNull)))
          (Got (sample_response 200 ''<table></table>'')) (tables_found [sample_frame]))
       ''argentina any?''
     = return_call_api
         (sample_env (Decoded (JObj (query (JStr ''argentina'') (JStr '''') JNull)))
            (Got (sample_response 200 ''<table></table>'')) (tables_found [sample_frame]))
         \<lparr>param_l = ''Argentina|'', param_v = JStr ''''\<rparr>"
proof -
  have l: "lower ''argentina'' = ''argentina''"
    by code_simp
  show ?thesis
    using empty_strings_count_as_absent
            [where env = "sample_env (Decoded (JObj (query (JStr '''') (JStr ''texas'') JNull)))
                            (Got (sample_response 200 ''<table></table>''))
                            (tables_found [sample_frame])"
               and command = "''Find all ranches''"
               and q = "query (JStr '''') (JStr ''texas'') JNull"]
          empty_strings_count_as_absent
            [where env = "sample_env (Decoded (JObj (query (JStr ''argentina'') (JStr '''') JNull)))
                            (Got (sample_response 200 ''<table></table>''))
                            (tables_found [sample_frame])"
               and command = "''argentina any?''"
               and q = "query (JStr ''argentina'') (JStr '''') JNull"
               and c = "''argentina''"
               and entry = "\<lparr>api_code = ''Argentina'', provinces = []\<rparr>"]
    by (simp add: sample_env_def interpret_command_def query_def dict_get_def l LOCATION_DATA_def
          py_or_def)
qed

section \<open>What the caller of \<^verbatim>\<open>search\<close> receives\<close>

text \<open>
  When the interpreter gives a dict whose country and province are strings or \<^verbatim>\<open>None\<close>,
  \<^verbatim>\<open>search\<close> returns a dict: no exception leaves it.
\<close>

lemma build_params_text_fields:
  assumes "text_or_null (dict_get q ''country'')" and "text_or_null (dict_get q ''province'')"
  shows "build_params (JObj q) \<noteq> Raises x"
proof (cases "dict_get q ''country''")
  case (JStr c)
  with assms(2) show ?thesis
    by (cases "dict_get q ''province''")
       (simp_all add: build_params_def Let_def split: option.splits)
qed (use assms(1) in \<open>simp_all add: build_params_def\<close>)

lemma search_returns_dict:
  assumes "interpret_command (ai_model env) command = JObj q"
    and "text_or_null (dict_get q ''country'')"
    and "text_or_null (dict_get q ''province'')"
  shows "\<exists>r. snd (search env command) = Returned r"
proof (cases "q \<noteq> [] \<and> ''error'' \<notin> fst ` set q")
  case True
  then have s: "search env command =
           (case build_params (JObj q) of
              Raises x \<Rightarrow> ([], Raised x)
            | Returns r \<Rightarrow> ([], Returned r)
            | Proceeds ps \<Rightarrow> return_call_api env ps)"
    using search_interpreted [OF assms(1)] by (simp add: map_of_eq_None_iff)
  show ?thesis
  proof (cases "build_params (JObj q)")
    case (Raises x)
    with build_params_text_fields [OF assms(2,3), of x] show ?thesis by simp
  next
    case (Returns r)
    with s show ?thesis by simp
  next
    case (Proceeds ps)
    with s show ?thesis by (simp add: return_call_api_def case_prod_unfold)
  qed
next
  case False
  then have "interpretation_failed (JObj q) = Inr True"
    by (auto simp: interpretation_failed_def)
  then show ?thesis
    using assms(1) by (simp add: search_def)
qed

text \<open>
  Claim C7. The claim promises a dict for every command. When the interpreter decodes the
  reply \<^verbatim>\<open>null\<close>, \<^verbatim>\<open>parsed_query\<close> is \<^verbatim>\<open>None\<close>: the test \<^verbatim>\<open>not parsed_query\<close> of
  line 108 holds and line 109 calls \<^verbatim>\<open>parsed_query.get\<close> on it, so an
  \<^verbatim>\<open>AttributeError\<close> leaves \<^verbatim>\<open>search\<close> and the caller receives no dict at all.
\<close>

theorem null_reply_escapes_search:
  "search
     (sample_env (Decoded JNull) (GetRaised RequestException ''unreachable'') no_tables_found)
     ''Find all ranches in Texas''
   = ([], Raised AttributeError)"
  by (simp add: search_def sample_env_def interpret_command_def interpretation_failed_def)

end
